theory Spec2Isabelle
  imports Main
begin

section \<open>The ovsbridge plugin: data model\<close>

text \<open>
  The development follows \<^verbatim>\<open>plugins/main/ovsbridge/ovsbridge.go\<close>. The plugin is an
  orchestrator: apart from decoding its configuration it only calls collaborators (the
  switch client, the namespace library, the veth factory, the result printer). Every such
  call is an \<^emph>\<open>event\<close> appended to a trace, and what the collaborator answers is read from
  a \<open>world\<close>, a record of answer functions that may depend on everything that happened so
  far. The functions of the source become functions from a world and a trace to a return
  value and the extended trace.
\<close>

subsection \<open>Errors\<close>

text \<open>
  A Go \<^verbatim>\<open>error\<close>. \<open>LibError\<close> is an error value produced by a collaborator;
  \<open>UnmarshalTypeError\<close> is the decoder's complaint about a JSON value of the wrong kind;
  the other constructors are the \<^verbatim>\<open>fmt.Errorf\<close> wrappers of the source, with their
  arguments in the order of the format string.
\<close>

datatype error =
    LibError string
  | UnmarshalTypeError string
  | FailedToLoadNetconf error
  | FailedToCreateBridge string error
  | FailedToOpenNetns string error
  | FailedToConnect string string error

subsection \<open>Configuration\<close>

text \<open>\<^verbatim>\<open>const defaultBrName = "ovsbr0"\<close>\<close>

definition defaultBrName :: string where
  "defaultBrName = ''ovsbr0''"

text \<open>
  \<^verbatim>\<open>type NetConf struct { types.NetConf; BrName string `json:"bridge"`;
  MTU int `json:"mtu"`; PNIC string `json:"pNIC"` }\<close>.
  Of the embedded \<^verbatim>\<open>types.NetConf\<close> the source reads \<^verbatim>\<open>CNIVersion\<close> only
  (JSON name \<^verbatim>\<open>cniVersion\<close>); its other members are never read and are not stored.
\<close>

record NetConf =
  CNIVersion :: string
  BrName :: string
  MTU :: int
  PNIC :: string

text \<open>
  A parsed JSON document. An object keeps its members in document order, duplicates
  included, because the decoder processes them one after the other. \<open>JNumber i\<close> is a
  number literal that is a decimal integer, \<open>JNumberFrac\<close> any other number literal.
\<close>

datatype json =
    JNull
  | JBool bool
  | JNumber int
  | JNumberFrac
  | JString string
  | JArray "json list"
  | JObject "(string \<times> json) list"

text \<open>
  \<^verbatim>\<open>encoding/json\<close> matches an object key against a field name ignoring case. For the
  ASCII field names of \<open>NetConf\<close> this is: ASCII upper case equals lower case, and the two
  non-ASCII code points that fold to an ASCII letter, U+017F (long s, UTF-8 C5 BF) and
  U+212A (Kelvin sign, UTF-8 E2 84 AA), equal \<open>s\<close> and \<open>k\<close>. \<open>foldName\<close> maps a key (a byte
  string) to its folded form.
\<close>

definition lowerASCII :: "char \<Rightarrow> char" where
  "lowerASCII c =
     (case map_of (zip ''ABCDEFGHIJKLMNOPQRSTUVWXYZ'' ''abcdefghijklmnopqrstuvwxyz'') c of
        Some l \<Rightarrow> l
      | None \<Rightarrow> c)"

fun foldName :: "string \<Rightarrow> string" where
  "foldName [] = []"
| "foldName (c # cs) =
     (if c = CHR 0xC5 \<and> take 1 cs = [CHR 0xBF]
        then CHR ''s'' # foldName (drop 1 cs)
      else if c = CHR 0xE2 \<and> take 2 cs = [CHR 0x84, CHR 0xAA]
        then CHR ''k'' # foldName (drop 2 cs)
      else lowerASCII c # foldName cs)"

subsection \<open>Interfaces, results, handles\<close>

text \<open>\<^verbatim>\<open>current.Interface\<close>: the descriptor of one interface in a result.\<close>

record Interface =
  Name :: string
  Mac :: string
  Sandbox :: string

text \<open>The zero value \<^verbatim>\<open>&current.Interface{}\<close>.\<close>

definition emptyInterface :: Interface where
  "emptyInterface = \<lparr>Name = [], Mac = [], Sandbox = []\<rparr>"

text \<open>
  \<^verbatim>\<open>net.Interface\<close>, as returned by the veth factory and by the interface lookup. The
  hardware address is a byte string.
\<close>

record net_Interface =
  net_Index :: int
  net_MTU :: int
  net_Name :: string
  net_HardwareAddr :: "nat list"

text \<open>
  \<^verbatim>\<open>net.HardwareAddr.String\<close>: the empty string for an empty address, otherwise the
  bytes as two lower-case hexadecimal digits each, separated by colons.
\<close>

definition hexDigit :: "nat \<Rightarrow> char" where
  "hexDigit d = ''0123456789abcdef'' ! (d mod 16)"

fun HardwareAddr_String :: "nat list \<Rightarrow> string" where
  "HardwareAddr_String [] = []"
| "HardwareAddr_String [b] = [hexDigit (b div 16), hexDigit b]"
| "HardwareAddr_String (b # bs) =
     hexDigit (b div 16) # hexDigit b # CHR '':'' # HardwareAddr_String bs"

typedecl IPConfig
typedecl Route

text \<open>
  \<^verbatim>\<open>current.Result\<close>. The source assigns \<^verbatim>\<open>Interfaces\<close> and leaves the rest as the
  result constructor returned it.
\<close>

record Result =
  result_CNIVersion :: string
  Interfaces :: "Interface list"
  IPs :: "IPConfig list"
  Routes :: "Route list"

text \<open>
  Modelled from the spec: the type \<^verbatim>\<open>OVSSwitch\<close> is declared outside the file under
  verification; the spec's Switch is an identity (a name) with an opaque connection. The
  source reads the member \<^verbatim>\<open>bridgeName\<close> only.
\<close>

record OVSSwitch =
  bridgeName :: string

text \<open>
  \<^verbatim>\<open>ns.NetNS\<close>, a handle on a network namespace; \<^verbatim>\<open>Path()\<close> reports the path the
  handle was opened from.
\<close>

record NetNS =
  ns_Path :: string

text \<open>\<^verbatim>\<open>skel.CmdArgs\<close>\<close>

record CmdArgs =
  ContainerID :: string
  Netns :: string
  IfName :: string
  Args :: string
  Path :: string
  StdinData :: string

subsection \<open>Events and the world\<close>

text \<open>
  One event per operation of a collaborator, with its arguments and its answer. The switch
  client's \<open>delPort\<close> and the link deletion of the veth library belong to the interfaces of
  the collaborators; the file under verification calls neither.
\<close>

datatype event =
    EvNewOVSSwitch string "error + OVSSwitch"
  | EvAddPort OVSSwitch string "error option"
  | EvDelPort OVSSwitch string "error option"
  | EvGetNS string "error option"
  | EvClose NetNS
  | EvDo NetNS "error option"
  | EvSetupVeth string int "error + net_Interface \<times> net_Interface"
  | EvDelLinkByName string "error option"
  | EvInterfaceByName string "error + net_Interface"
  | EvNewResultFromResult "error + Result"
  | EvPrintResult Result string "error option"

text \<open>
  What the collaborators answer. \<open>parse_json\<close> is the syntax half of
  \<^verbatim>\<open>json.Unmarshal\<close>; \<open>other_member\<close> is the decoder's verdict on an object member
  that belongs to none of the four fields kept in \<open>NetConf\<close> (an unknown key is ignored:
  \<open>None\<close>). The remaining members answer a call given the trace so far.
\<close>

record world =
  parse_json :: "string \<Rightarrow> error + json"
  other_member :: "string \<Rightarrow> json \<Rightarrow> error option"
  NewOVSSwitch_answer :: "event list \<Rightarrow> string \<Rightarrow> error + OVSSwitch"
  addPort_answer :: "event list \<Rightarrow> OVSSwitch \<Rightarrow> string \<Rightarrow> error option"
  GetNS_answer :: "event list \<Rightarrow> string \<Rightarrow> error option"
  Do_answer :: "event list \<Rightarrow> NetNS \<Rightarrow> error option"
  SetupVeth_answer :: "event list \<Rightarrow> string \<Rightarrow> int \<Rightarrow> error + net_Interface \<times> net_Interface"
  InterfaceByName_answer :: "event list \<Rightarrow> string \<Rightarrow> error + net_Interface"
  NewResultFromResult_answer :: "event list \<Rightarrow> error + Result"
  PrintResult_answer :: "event list \<Rightarrow> Result \<Rightarrow> string \<Rightarrow> error option"

section \<open>Loading the configuration\<close>

text \<open>
  Storing a JSON value into a string field and into an \<^verbatim>\<open>int\<close> field (64 bits): a value
  of the right kind is stored, \<^verbatim>\<open>null\<close> leaves the field as it is, anything else is a
  type error and leaves the field as it is.
\<close>

fun storeString :: "string \<Rightarrow> json \<Rightarrow> string \<Rightarrow> error + string" where
  "storeString f (JString s) old = Inr s"
| "storeString f JNull old = Inr old"
| "storeString f v old = Inl (UnmarshalTypeError f)"

fun storeInt :: "string \<Rightarrow> json \<Rightarrow> int \<Rightarrow> error + int" where
  "storeInt f (JNumber i) old =
     (if - (2 ^ 63) \<le> i \<and> i < 2 ^ 63 then Inr i else Inl (UnmarshalTypeError f))"
| "storeInt f JNull old = Inr old"
| "storeInt f v old = Inl (UnmarshalTypeError f)"

text \<open>The decoder remembers the first error and goes on.\<close>

definition saveError :: "error option \<Rightarrow> error \<Rightarrow> error option" where
  "saveError saved e = (case saved of None \<Rightarrow> Some e | Some e0 \<Rightarrow> Some e0)"

definition decodeMember :: "world \<Rightarrow> string \<times> json \<Rightarrow> NetConf \<times> error option \<Rightarrow> NetConf \<times> error option" where
  "decodeMember w kv acc =
     (let k = fst kv; v = snd kv; n = fst acc; saved = snd acc in
      if foldName k = ''bridge'' then
        (case storeString ''bridge'' v (BrName n) of
           Inr s \<Rightarrow> (n\<lparr>BrName := s\<rparr>, saved)
         | Inl e \<Rightarrow> (n, saveError saved e))
      else if foldName k = ''mtu'' then
        (case storeInt ''mtu'' v (MTU n) of
           Inr i \<Rightarrow> (n\<lparr>MTU := i\<rparr>, saved)
         | Inl e \<Rightarrow> (n, saveError saved e))
      else if foldName k = ''pnic'' then
        (case storeString ''pNIC'' v (PNIC n) of
           Inr s \<Rightarrow> (n\<lparr>PNIC := s\<rparr>, saved)
         | Inl e \<Rightarrow> (n, saveError saved e))
      else if foldName k = ''cniversion'' then
        (case storeString ''cniVersion'' v (CNIVersion n) of
           Inr s \<Rightarrow> (n\<lparr>CNIVersion := s\<rparr>, saved)
         | Inl e \<Rightarrow> (n, saveError saved e))
      else
        (case other_member w k v of
           None \<Rightarrow> (n, saved)
         | Some e \<Rightarrow> (n, saveError saved e)))"

fun decodeObject :: "world \<Rightarrow> (string \<times> json) list \<Rightarrow> NetConf \<times> error option \<Rightarrow> NetConf \<times> error option" where
  "decodeObject w [] acc = acc"
| "decodeObject w (kv # kvs) acc = decodeObject w kvs (decodeMember w kv acc)"

text \<open>
  \<^verbatim>\<open>json.Unmarshal(bytes, n)\<close> for \<open>n\<close> a pointer to a \<open>NetConf\<close>: the updated struct
  and the error. A document that is \<^verbatim>\<open>null\<close> changes nothing; a document that is
  neither \<^verbatim>\<open>null\<close> nor an object is a type error.
\<close>

definition Unmarshal :: "world \<Rightarrow> string \<Rightarrow> NetConf \<Rightarrow> NetConf \<times> error option" where
  "Unmarshal w bytes n =
     (case parse_json w bytes of
        Inl e \<Rightarrow> (n, Some e)
      | Inr JNull \<Rightarrow> (n, None)
      | Inr (JObject kvs) \<Rightarrow> decodeObject w kvs (n, None)
      | Inr _ \<Rightarrow> (n, Some (UnmarshalTypeError ''NetConf'')))"

text \<open>
  \<^verbatim>\<open>func loadNetConf(bytes []byte) (*NetConf, string, error)\<close>: the struct starts with
  \<^verbatim>\<open>BrName: defaultBrName\<close> and zero values elsewhere.
\<close>

definition loadNetConf :: "world \<Rightarrow> string \<Rightarrow> error + NetConf \<times> string" where
  "loadNetConf w bytes =
     (let n = \<lparr>CNIVersion = [], BrName = defaultBrName, MTU = 0, PNIC = []\<rparr> in
      case Unmarshal w bytes n of
        (n', Some err) \<Rightarrow> Inl (FailedToLoadNetconf err)
      | (n', None) \<Rightarrow> Inr (n', CNIVersion n'))"

section \<open>Calls to the collaborators\<close>

text \<open>Each call asks the world for the answer and appends the event to the trace.\<close>

definition NewOVSSwitch :: "world \<Rightarrow> event list \<Rightarrow> string \<Rightarrow> (error + OVSSwitch) \<times> event list" where
  "NewOVSSwitch w tr bridgeName' =
     (let a = NewOVSSwitch_answer w tr bridgeName' in (a, tr @ [EvNewOVSSwitch bridgeName' a]))"

definition addPort :: "world \<Rightarrow> event list \<Rightarrow> OVSSwitch \<Rightarrow> string \<Rightarrow> error option \<times> event list" where
  "addPort w tr br ifName = (let a = addPort_answer w tr br ifName in (a, tr @ [EvAddPort br ifName a]))"

text \<open>\<^verbatim>\<open>ns.GetNS(nspath)\<close>: on success a handle whose \<^verbatim>\<open>Path()\<close> is \<open>nspath\<close>.\<close>

definition GetNS :: "world \<Rightarrow> event list \<Rightarrow> string \<Rightarrow> (error + NetNS) \<times> event list" where
  "GetNS w tr nspath =
     (let a = GetNS_answer w tr nspath in
      (case a of Some e \<Rightarrow> Inl e | None \<Rightarrow> Inr \<lparr>ns_Path = nspath\<rparr>, tr @ [EvGetNS nspath a]))"

definition Close :: "event list \<Rightarrow> NetNS \<Rightarrow> event list" where
  "Close tr netns = tr @ [EvClose netns]"

text \<open>
  \<^verbatim>\<open>netns.Do(toRun)\<close>: entering the namespace may fail, and then \<open>toRun\<close> does not run;
  otherwise the error of \<open>toRun\<close> is the error of \<open>Do\<close>. The closure works on the variables
  it captures, here the state \<open>s\<close>.
\<close>

definition Do :: "world \<Rightarrow> NetNS \<Rightarrow> (event list \<Rightarrow> 's \<Rightarrow> error option \<times> 's \<times> event list)
    \<Rightarrow> event list \<Rightarrow> 's \<Rightarrow> error option \<times> 's \<times> event list" where
  "Do w netns toRun tr s =
     (case Do_answer w tr netns of
        Some e \<Rightarrow> (Some e, s, tr @ [EvDo netns (Some e)])
      | None \<Rightarrow> toRun (tr @ [EvDo netns None]) s)"

definition SetupVeth :: "world \<Rightarrow> event list \<Rightarrow> string \<Rightarrow> int
    \<Rightarrow> (error + net_Interface \<times> net_Interface) \<times> event list" where
  "SetupVeth w tr contVethName mtu =
     (let a = SetupVeth_answer w tr contVethName mtu in (a, tr @ [EvSetupVeth contVethName mtu a]))"

definition InterfaceByName :: "world \<Rightarrow> event list \<Rightarrow> string \<Rightarrow> (error + net_Interface) \<times> event list" where
  "InterfaceByName w tr name' =
     (let a = InterfaceByName_answer w tr name' in (a, tr @ [EvInterfaceByName name' a]))"

text \<open>\<^verbatim>\<open>current.NewResultFromResult(nil)\<close>\<close>

definition NewResultFromResult_nil :: "world \<Rightarrow> event list \<Rightarrow> (error + Result) \<times> event list" where
  "NewResultFromResult_nil w tr =
     (let a = NewResultFromResult_answer w tr in (a, tr @ [EvNewResultFromResult a]))"

definition PrintResult :: "world \<Rightarrow> event list \<Rightarrow> Result \<Rightarrow> string \<Rightarrow> error option \<times> event list" where
  "PrintResult w tr result version =
     (let a = PrintResult_answer w tr result version in (a, tr @ [EvPrintResult result version a]))"

section \<open>The plugin\<close>

text \<open>
  \<^verbatim>\<open>func setupVeth(netns, br, ifName, mtu) (*current.Interface, *current.Interface, error)\<close>.
  The closure fills \<open>contIface\<close> and \<open>hostIface\<close>; after it the switch's \<open>addPort\<close> is called
  with \<^verbatim>\<open>contIface.Name\<close>, and its error is wrapped with \<^verbatim>\<open>hostIface.Name\<close> and
  \<^verbatim>\<open>br.bridgeName\<close>. The pair returned is (host, container).
\<close>

definition setupVeth :: "world \<Rightarrow> event list \<Rightarrow> NetNS \<Rightarrow> OVSSwitch \<Rightarrow> string \<Rightarrow> int
    \<Rightarrow> (error + Interface \<times> Interface) \<times> event list" where
  "setupVeth w tr netns br ifName mtu =
     (case Do w netns
             (\<lambda>tr' (contIface, hostIface).
                case SetupVeth w tr' ifName mtu of
                  (Inl err, tr'') \<Rightarrow> (Some err, (contIface, hostIface), tr'')
                | (Inr (hostVeth, containerVeth), tr'') \<Rightarrow>
                    (None,
                     (contIface\<lparr>Name := net_Name containerVeth,
                                Mac := HardwareAddr_String (net_HardwareAddr containerVeth),
                                Sandbox := ns_Path netns\<rparr>,
                      hostIface\<lparr>Name := net_Name hostVeth\<rparr>),
                     tr''))
             tr (emptyInterface, emptyInterface) of
        (Some err, _, tr1) \<Rightarrow> (Inl err, tr1)
      | (None, (contIface, hostIface), tr1) \<Rightarrow>
          (case addPort w tr1 br (Name contIface) of
             (Some err, tr2) \<Rightarrow> (Inl (FailedToConnect (Name hostIface) (bridgeName br) err), tr2)
           | (None, tr2) \<Rightarrow> (Inr (hostIface, contIface), tr2)))"

text \<open>\<^verbatim>\<open>func setupBridge(n *NetConf) (*OVSSwitch, *current.Interface, error)\<close>\<close>

definition setupBridge :: "world \<Rightarrow> event list \<Rightarrow> NetConf \<Rightarrow> (error + OVSSwitch \<times> Interface) \<times> event list" where
  "setupBridge w tr n =
     (case NewOVSSwitch w tr (BrName n) of
        (Inl err, tr1) \<Rightarrow> (Inl (FailedToCreateBridge (BrName n) err), tr1)
      | (Inr ovs, tr1) \<Rightarrow> (Inr (ovs, emptyInterface\<lparr>Name := BrName n\<rparr>), tr1))"

text \<open>
  The part of \<^verbatim>\<open>cmdAdd\<close> that runs with the namespace handle open, from
  \<^verbatim>\<open>current.NewResultFromResult(nil)\<close> to \<^verbatim>\<open>types.PrintResult\<close>.
\<close>

definition cmdAdd_inNetns :: "world \<Rightarrow> event list \<Rightarrow> CmdArgs \<Rightarrow> NetConf \<Rightarrow> string \<Rightarrow> OVSSwitch
    \<Rightarrow> Interface \<Rightarrow> NetNS \<Rightarrow> error option \<times> event list" where
  "cmdAdd_inNetns w tr args n cniVersion br brInterface netns =
     (case NewResultFromResult_nil w tr of
        (Inl err, tr1) \<Rightarrow> (Some err, tr1)
      | (Inr result, tr1) \<Rightarrow>
          (case setupVeth w tr1 netns br (IfName args) (MTU n) of
             (Inl err, tr2) \<Rightarrow> (Some err, tr2)
           | (Inr (hostInterface, containerInterface), tr2) \<Rightarrow>
               (let result' = result\<lparr>Interfaces := [brInterface, hostInterface, containerInterface]\<rparr> in
                case Do w netns
                       (\<lambda>tr' (u :: unit).
                          case InterfaceByName w tr' (IfName args) of
                            (Inl err, tr'') \<Rightarrow> (Some err, u, tr'')
                          | (Inr contVeth, tr'') \<Rightarrow> (None, u, tr''))
                       tr2 () of
                  (Some err, _, tr3) \<Rightarrow> (Some err, tr3)
                | (None, _, tr3) \<Rightarrow> PrintResult w tr3 result' cniVersion)))"

text \<open>
  \<^verbatim>\<open>func cmdAdd(args *skel.CmdArgs) error\<close>: the error returned (\<open>None\<close> is
  \<^verbatim>\<open>nil\<close>) and the trace of the calls made. \<^verbatim>\<open>defer netns.Close()\<close> runs on every
  return after the namespace was opened.
\<close>

definition cmdAdd :: "world \<Rightarrow> CmdArgs \<Rightarrow> error option \<times> event list" where
  "cmdAdd w args =
     (case loadNetConf w (StdinData args) of
        Inl err \<Rightarrow> (Some err, [])
      | Inr (n, cniVersion) \<Rightarrow>
          (case setupBridge w [] n of
             (Inl err, tr1) \<Rightarrow> (Some err, tr1)
           | (Inr (br, brInterface), tr1) \<Rightarrow>
               (case addPort w tr1 br (PNIC n) of
                  (Some err, tr2) \<Rightarrow> (Some err, tr2)
                | (None, tr2) \<Rightarrow>
                    (case GetNS w tr2 (Netns args) of
                       (Inl err, tr3) \<Rightarrow> (Some (FailedToOpenNetns (Netns args) err), tr3)
                     | (Inr netns, tr3) \<Rightarrow>
                         (case cmdAdd_inNetns w tr3 args n cniVersion br brInterface netns of
                            (r, tr4) \<Rightarrow> (r, Close tr4 netns))))))"

text \<open>
  \<^verbatim>\<open>func cmdDel(args *skel.CmdArgs) error\<close>: after the configuration is loaded both
  branches return \<^verbatim>\<open>nil\<close> (the final \<^verbatim>\<open>return err\<close> is reached with \<^verbatim>\<open>err == nil\<close>).
\<close>

definition cmdDel :: "world \<Rightarrow> CmdArgs \<Rightarrow> error option \<times> event list" where
  "cmdDel w args =
     (case loadNetConf w (StdinData args) of
        Inl err \<Rightarrow> (Some err, [])
      | Inr (n, _) \<Rightarrow>
          (if Netns args = [] then (None, [])
           else (None, [])))"

section \<open>Reading a trace\<close>

text \<open>
  The properties below are stated on the trace of a run. These functions pick out of a
  trace what a property talks about; none of them is part of the plugin.
\<close>

fun is_AddPort :: "event \<Rightarrow> bool" where
  "is_AddPort (EvAddPort br i a) = True"
| "is_AddPort e = False"

fun is_DelPort :: "event \<Rightarrow> bool" where
  "is_DelPort (EvDelPort br i a) = True"
| "is_DelPort e = False"


fun is_SetupVeth :: "event \<Rightarrow> bool" where
  "is_SetupVeth (EvSetupVeth i m a) = True"
| "is_SetupVeth e = False"





text \<open>The events before the first attempt to open a namespace; \<open>None\<close> when there is no attempt.\<close>

fun before_netns_open :: "event list \<Rightarrow> event list option" where
  "before_netns_open [] = None"
| "before_netns_open (EvGetNS p a # tr) = Some []"
| "before_netns_open (e # tr) = map_option (Cons e) (before_netns_open tr)"




subsection \<open>The steps of an attachment\<close>



fun switch_creation_failed :: "event list \<Rightarrow> bool" where
  "switch_creation_failed [] = False"
| "switch_creation_failed (EvNewOVSSwitch b (Inl e) # tr) = True"
| "switch_creation_failed (e # tr) = switch_creation_failed tr"


definition uplink_attach_failed :: "event list \<Rightarrow> bool" where
  "uplink_attach_failed tr =
     (case filter is_AddPort tr of EvAddPort br i (Some e) # rest \<Rightarrow> True | _ \<Rightarrow> False)"





subsection \<open>The bridge name a configuration supplies\<close>

text \<open>
  The names a JSON object gives for the bridge, in document order: the string values of
  the members whose key names the field \<^verbatim>\<open>bridge\<close>. A configuration supplies the last
  of them, and supplies none when there is none (the key is absent, or its value is
  \<^verbatim>\<open>null\<close>) or when the document is \<^verbatim>\<open>null\<close>.
\<close>

fun bridge_names :: "(string \<times> json) list \<Rightarrow> string list" where
  "bridge_names [] = []"
| "bridge_names ((k, JString s) # kvs) =
     (if foldName k = ''bridge'' then s # bridge_names kvs else bridge_names kvs)"
| "bridge_names (kv # kvs) = bridge_names kvs"

fun supplied_bridge :: "json \<Rightarrow> string option" where
  "supplied_bridge (JObject kvs) =
     (if bridge_names kvs = [] then None else Some (last (bridge_names kvs)))"
| "supplied_bridge doc = None"

section \<open>Example worlds and requests\<close>

text \<open>
  The request of the spec's end-to-end scenario and three other configuration documents:
  one without a bridge name, one with an empty bridge name, one that is no JSON.
\<close>

definition example_conf :: string where
  \<open>example_conf = ''{"cniVersion":"0.3.1","bridge":"ovsbr0","mtu":1500,"pNIC":"eth1"}''\<close>

definition conf_without_bridge :: string where
  \<open>conf_without_bridge = ''{"cniVersion":"0.3.1","mtu":1500,"pNIC":"eth1"}''\<close>

definition conf_custom_bridge :: string where
  \<open>conf_custom_bridge = ''{"Bridge":"br-int","pNIC":"eth1"}''\<close>

definition conf_empty_bridge :: string where
  \<open>conf_empty_bridge = ''{"bridge":"","pNIC":"eth1"}''\<close>

definition conf_malformed :: string where
  \<open>conf_malformed = ''{"bridge":''\<close>

definition example_parse :: "string \<Rightarrow> error + json" where
  "example_parse b =
     (if b = example_conf then
        Inr (JObject [(''cniVersion'', JString ''0.3.1''), (''bridge'', JString ''ovsbr0''),
                      (''mtu'', JNumber 1500), (''pNIC'', JString ''eth1'')])
      else if b = conf_without_bridge then
        Inr (JObject [(''cniVersion'', JString ''0.3.1''), (''mtu'', JNumber 1500),
                      (''pNIC'', JString ''eth1'')])
      else if b = conf_custom_bridge then
        Inr (JObject [(''Bridge'', JString ''br-int''), (''pNIC'', JString ''eth1'')])
      else if b = conf_empty_bridge then
        Inr (JObject [(''bridge'', JString []), (''pNIC'', JString ''eth1'')])
      else Inl (LibError ''unexpected end of JSON input''))"

definition host_veth :: net_Interface where
  "host_veth = \<lparr>net_Index = 7, net_MTU = 1500, net_Name = ''veth1a2b3c4d'',
                 net_HardwareAddr = [2, 66, 172, 17, 0, 9]\<rparr>"

definition cont_veth :: net_Interface where
  "cont_veth = \<lparr>net_Index = 2, net_MTU = 1500, net_Name = ''eth0'',
                 net_HardwareAddr = [10, 88, 0, 1, 2, 255]\<rparr>"

text \<open>A world in which every collaborator succeeds.\<close>

definition world_ok :: world where
  "world_ok =
     \<lparr>parse_json = example_parse,
      other_member = (\<lambda>k v. None),
      NewOVSSwitch_answer = (\<lambda>tr b. Inr \<lparr>bridgeName = b\<rparr>),
      addPort_answer = (\<lambda>tr br i. None),
      GetNS_answer = (\<lambda>tr p. None),
      Do_answer = (\<lambda>tr n. None),
      SetupVeth_answer = (\<lambda>tr i m. Inr (host_veth, cont_veth)),
      InterfaceByName_answer = (\<lambda>tr i. Inr cont_veth),
      NewResultFromResult_answer =
        (\<lambda>tr. Inr \<lparr>result_CNIVersion = ''0.3.1'', Interfaces = [], IPs = [], Routes = []\<rparr>),
      PrintResult_answer = (\<lambda>tr r v. None)\<rparr>"

text \<open>Worlds in which the switch refuses one port, or cannot be created.\<close>

definition world_attach_fails :: world where
  "world_attach_fails =
     world_ok\<lparr>addPort_answer :=
       (\<lambda>tr br i. if i = ''eth1'' then None else Some (LibError ''no such device''))\<rparr>"

definition world_uplink_fails :: world where
  "world_uplink_fails =
     world_ok\<lparr>addPort_answer :=
       (\<lambda>tr br i. if i = ''eth1'' then Some (LibError ''no such device'') else None)\<rparr>"

definition world_switch_fails :: world where
  "world_switch_fails =
     world_ok\<lparr>NewOVSSwitch_answer := (\<lambda>tr b. Inl (LibError ''ovsdb unreachable''))\<rparr>"

definition args_ok :: CmdArgs where
  "args_ok =
     \<lparr>ContainerID = ''c1'', Netns = ''/proc/1234/ns/net'', IfName = ''eth0'', Args = [],
      Path = ''/opt/cni/bin'', StdinData = example_conf\<rparr>"

definition args_no_netns :: CmdArgs where
  "args_no_netns = args_ok\<lparr>Netns := []\<rparr>"

definition args_malformed :: CmdArgs where
  "args_malformed = args_ok\<lparr>Netns := [], StdinData := conf_malformed\<rparr>"

section \<open>The runs of the plugin\<close>

text \<open>
  Every run of \<open>setupVeth\<close>, of the lookup inside the namespace and of \<open>cmdAdd\<close> has one
  of finitely many shapes: the calls succeed one after the other until one fails or the
  end is reached. The case rules below list the shapes with the value returned.
\<close>

lemmas call_defs = NewOVSSwitch_def addPort_def GetNS_def Close_def Do_def SetupVeth_def
  InterfaceByName_def NewResultFromResult_nil_def PrintResult_def Let_def emptyInterface_def

lemma setupVeth_cases:
  obtains
    (DoFailed) e where
      "setupVeth w tr netns br ifName mtu = (Inl e, tr @ [EvDo netns (Some e)])"
  | (SetupVethFailed) e where
      "setupVeth w tr netns br ifName mtu = (Inl e, tr @ [EvDo netns None, EvSetupVeth ifName mtu (Inl e)])"
  | (AddPortFailed) hv cv e where
      "setupVeth w tr netns br ifName mtu =
         (Inl (FailedToConnect (net_Name hv) (bridgeName br) e),
          tr @ [EvDo netns None, EvSetupVeth ifName mtu (Inr (hv, cv)), EvAddPort br (net_Name cv) (Some e)])"
  | (Connected) hv cv where
      "setupVeth w tr netns br ifName mtu =
         (Inr (\<lparr>Name = net_Name hv, Mac = [], Sandbox = []\<rparr>,
               \<lparr>Name = net_Name cv, Mac = HardwareAddr_String (net_HardwareAddr cv), Sandbox = ns_Path netns\<rparr>),
          tr @ [EvDo netns None, EvSetupVeth ifName mtu (Inr (hv, cv)), EvAddPort br (net_Name cv) None])"
proof (cases "Do_answer w tr netns")
  case (Some e)
  then show ?thesis
    using DoFailed [of e] by (simp add: setupVeth_def call_defs)
next
  case None
  note enter = this
  show ?thesis
  proof (cases "SetupVeth_answer w (tr @ [EvDo netns None]) ifName mtu")
    case (Inl e)
    then show ?thesis
      using enter SetupVethFailed [of e] by (simp add: setupVeth_def call_defs)
  next
    case (Inr p)
    obtain hv cv where p: "p = (hv, cv)" by (cases p)
    show ?thesis
    proof (cases "addPort_answer w (tr @ [EvDo netns None, EvSetupVeth ifName mtu (Inr (hv, cv))]) br (net_Name cv)")
      case None
      with enter Inr p have "setupVeth w tr netns br ifName mtu =
         (Inr (\<lparr>Name = net_Name hv, Mac = [], Sandbox = []\<rparr>,
               \<lparr>Name = net_Name cv, Mac = HardwareAddr_String (net_HardwareAddr cv), Sandbox = ns_Path netns\<rparr>),
          tr @ [EvDo netns None, EvSetupVeth ifName mtu (Inr (hv, cv)), EvAddPort br (net_Name cv) None])"
        by (simp add: setupVeth_def call_defs)
      then show ?thesis by (rule Connected)
    next
      case (Some e)
      with enter Inr p have "setupVeth w tr netns br ifName mtu =
         (Inl (FailedToConnect (net_Name hv) (bridgeName br) e),
          tr @ [EvDo netns None, EvSetupVeth ifName mtu (Inr (hv, cv)), EvAddPort br (net_Name cv) (Some e)])"
        by (simp add: setupVeth_def call_defs)
      then show ?thesis by (rule AddPortFailed)
    qed
  qed
qed

lemma lookup_cases:
  obtains
    (DoFailed) e where
      "Do w netns (\<lambda>tr' (u :: unit).
                          case InterfaceByName w tr' ifName of
                            (Inl err, tr'') \<Rightarrow> (Some err, u, tr'')
                          | (Inr contVeth, tr'') \<Rightarrow> (None, u, tr'')) tr () = (Some e, (), tr @ [EvDo netns (Some e)])"
  | (NotFound) e where
      "Do w netns (\<lambda>tr' (u :: unit).
                          case InterfaceByName w tr' ifName of
                            (Inl err, tr'') \<Rightarrow> (Some err, u, tr'')
                          | (Inr contVeth, tr'') \<Rightarrow> (None, u, tr'')) tr () =
         (Some e, (), tr @ [EvDo netns None, EvInterfaceByName ifName (Inl e)])"
  | (Found) ci where
      "Do w netns (\<lambda>tr' (u :: unit).
                          case InterfaceByName w tr' ifName of
                            (Inl err, tr'') \<Rightarrow> (Some err, u, tr'')
                          | (Inr contVeth, tr'') \<Rightarrow> (None, u, tr'')) tr () =
         (None, (), tr @ [EvDo netns None, EvInterfaceByName ifName (Inr ci)])"
proof (cases "Do_answer w tr netns")
  case (Some e)
  then show ?thesis using DoFailed [of e] by (simp add: call_defs)
next
  case None
  note enter = this
  show ?thesis
  proof (cases "InterfaceByName_answer w (tr @ [EvDo netns None]) ifName")
    case (Inl e)
    then show ?thesis using enter NotFound [of e] by (simp add: call_defs)
  next
    case (Inr ci)
    then show ?thesis using enter Found [of ci] by (simp add: call_defs)
  qed
qed


lemma cmdAdd_cases:
  obtains
    (LoadFailed) e where
      "loadNetConf w (StdinData args) = Inl e"
      "cmdAdd w args = (Some e, [])"
  | (BridgeFailed) n v e where
      "loadNetConf w (StdinData args) = Inr (n, v)"
      "cmdAdd w args =
         (Some (FailedToCreateBridge (BrName n) e), [EvNewOVSSwitch (BrName n) (Inl e)])"
  | (UplinkFailed) n v br e where
      "loadNetConf w (StdinData args) = Inr (n, v)"
      "cmdAdd w args =
         (Some e, [EvNewOVSSwitch (BrName n) (Inr br), EvAddPort br (PNIC n) (Some e)])"
  | (NetnsFailed) n v br e where
      "loadNetConf w (StdinData args) = Inr (n, v)"
      "cmdAdd w args =
         (Some (FailedToOpenNetns (Netns args) e),
          [EvNewOVSSwitch (BrName n) (Inr br), EvAddPort br (PNIC n) None,
           EvGetNS (Netns args) (Some e)])"
  | (ResultFailed) n v br e where
      "loadNetConf w (StdinData args) = Inr (n, v)"
      "cmdAdd w args =
         (Some e,
          [EvNewOVSSwitch (BrName n) (Inr br), EvAddPort br (PNIC n) None,
           EvGetNS (Netns args) None, EvNewResultFromResult (Inl e),
           EvClose \<lparr>ns_Path = Netns args\<rparr>])"
  | (EnterFailed) n v br r0 e where
      "loadNetConf w (StdinData args) = Inr (n, v)"
      "cmdAdd w args =
         (Some e,
          [EvNewOVSSwitch (BrName n) (Inr br), EvAddPort br (PNIC n) None,
           EvGetNS (Netns args) None, EvNewResultFromResult (Inr r0),
           EvDo \<lparr>ns_Path = Netns args\<rparr> (Some e),
           EvClose \<lparr>ns_Path = Netns args\<rparr>])"
  | (VethFailed) n v br r0 e where
      "loadNetConf w (StdinData args) = Inr (n, v)"
      "cmdAdd w args =
         (Some e,
          [EvNewOVSSwitch (BrName n) (Inr br), EvAddPort br (PNIC n) None,
           EvGetNS (Netns args) None, EvNewResultFromResult (Inr r0),
           EvDo \<lparr>ns_Path = Netns args\<rparr> None,
           EvSetupVeth (IfName args) (MTU n) (Inl e),
           EvClose \<lparr>ns_Path = Netns args\<rparr>])"
  | (AttachFailed) n v br r0 hv cv e where
      "loadNetConf w (StdinData args) = Inr (n, v)"
      "cmdAdd w args =
         (Some (FailedToConnect (net_Name hv) (bridgeName br) e),
          [EvNewOVSSwitch (BrName n) (Inr br), EvAddPort br (PNIC n) None,
           EvGetNS (Netns args) None, EvNewResultFromResult (Inr r0),
           EvDo \<lparr>ns_Path = Netns args\<rparr> None,
           EvSetupVeth (IfName args) (MTU n) (Inr (hv, cv)),
           EvAddPort br (net_Name cv) (Some e),
           EvClose \<lparr>ns_Path = Netns args\<rparr>])"
  | (ReenterFailed) n v br r0 hv cv e where
      "loadNetConf w (StdinData args) = Inr (n, v)"
      "cmdAdd w args =
         (Some e,
          [EvNewOVSSwitch (BrName n) (Inr br), EvAddPort br (PNIC n) None,
           EvGetNS (Netns args) None, EvNewResultFromResult (Inr r0),
           EvDo \<lparr>ns_Path = Netns args\<rparr> None,
           EvSetupVeth (IfName args) (MTU n) (Inr (hv, cv)),
           EvAddPort br (net_Name cv) None,
           EvDo \<lparr>ns_Path = Netns args\<rparr> (Some e),
           EvClose \<lparr>ns_Path = Netns args\<rparr>])"
  | (LookupFailed) n v br r0 hv cv e where
      "loadNetConf w (StdinData args) = Inr (n, v)"
      "cmdAdd w args =
         (Some e,
          [EvNewOVSSwitch (BrName n) (Inr br), EvAddPort br (PNIC n) None,
           EvGetNS (Netns args) None, EvNewResultFromResult (Inr r0),
           EvDo \<lparr>ns_Path = Netns args\<rparr> None,
           EvSetupVeth (IfName args) (MTU n) (Inr (hv, cv)),
           EvAddPort br (net_Name cv) None,
           EvDo \<lparr>ns_Path = Netns args\<rparr> None,
           EvInterfaceByName (IfName args) (Inl e),
           EvClose \<lparr>ns_Path = Netns args\<rparr>])"
  | (Printed) n v br r0 hv cv ci a where
      "loadNetConf w (StdinData args) = Inr (n, v)"
      "cmdAdd w args =
         (a,
          [EvNewOVSSwitch (BrName n) (Inr br), EvAddPort br (PNIC n) None,
           EvGetNS (Netns args) None, EvNewResultFromResult (Inr r0),
           EvDo \<lparr>ns_Path = Netns args\<rparr> None,
           EvSetupVeth (IfName args) (MTU n) (Inr (hv, cv)),
           EvAddPort br (net_Name cv) None,
           EvDo \<lparr>ns_Path = Netns args\<rparr> None,
           EvInterfaceByName (IfName args) (Inr ci),
           EvPrintResult
             (r0\<lparr>Interfaces :=
                   [\<lparr>Name = BrName n, Mac = [], Sandbox = []\<rparr>,
                    \<lparr>Name = net_Name hv, Mac = [], Sandbox = []\<rparr>,
                    \<lparr>Name = net_Name cv, Mac = HardwareAddr_String (net_HardwareAddr cv),
                       Sandbox = Netns args\<rparr>]\<rparr>)
             v a,
           EvClose \<lparr>ns_Path = Netns args\<rparr>])"
proof (cases "loadNetConf w (StdinData args)")
  case (Inl e)
  then have "cmdAdd w args = (Some e, [])"
    by (simp add: cmdAdd_def)
  with Inl show ?thesis by (rule LoadFailed)
next
  case (Inr nv)
  obtain n v where nv: "nv = (n, v)" by (cases nv)
  from Inr nv have load: "loadNetConf w (StdinData args) = Inr (n, v)" by simp
  show ?thesis
  proof (cases "NewOVSSwitch_answer w [] (BrName n)")
    case (Inl e)
    with load have "cmdAdd w args =
         (Some (FailedToCreateBridge (BrName n) e), [EvNewOVSSwitch (BrName n) (Inl e)])"
      by (simp add: cmdAdd_def setupBridge_def call_defs)
    with load show ?thesis by (rule BridgeFailed)
  next
    case (Inr br)
    note bridge = this
    let ?t1 = "[EvNewOVSSwitch (BrName n) (Inr br)]"
    show ?thesis
    proof (cases "addPort_answer w ?t1 br (PNIC n)")
      case (Some e)
      with load bridge have "cmdAdd w args =
         (Some e, [EvNewOVSSwitch (BrName n) (Inr br), EvAddPort br (PNIC n) (Some e)])"
        by (simp add: cmdAdd_def setupBridge_def call_defs)
      with load show ?thesis by (rule UplinkFailed)
    next
      case None
      note uplink = this
      let ?t2 = "[EvNewOVSSwitch (BrName n) (Inr br), EvAddPort br (PNIC n) None]"
      show ?thesis
      proof (cases "GetNS_answer w ?t2 (Netns args)")
        case (Some e)
        with load bridge uplink have "cmdAdd w args =
         (Some (FailedToOpenNetns (Netns args) e),
          [EvNewOVSSwitch (BrName n) (Inr br), EvAddPort br (PNIC n) None,
           EvGetNS (Netns args) (Some e)])"
          by (simp add: cmdAdd_def setupBridge_def call_defs)
        with load show ?thesis by (rule NetnsFailed)
      next
        case None
        let ?ns = "\<lparr>ns_Path = Netns args\<rparr>"
        let ?t3 = "[EvNewOVSSwitch (BrName n) (Inr br), EvAddPort br (PNIC n) None,
           EvGetNS (Netns args) None]"
        let ?bi = "\<lparr>Name = BrName n, Mac = [], Sandbox = []\<rparr>"
        from load bridge uplink None
        have outer: "cmdAdd w args =
            (case cmdAdd_inNetns w ?t3 args n v br ?bi ?ns of (r, tr4) \<Rightarrow> (r, tr4 @ [EvClose ?ns]))"
          by (simp add: cmdAdd_def setupBridge_def call_defs)
        show ?thesis
        proof (cases "NewResultFromResult_answer w ?t3")
          case (Inl e)
          with outer have "cmdAdd w args =
             (Some e, ?t3 @ [EvNewResultFromResult (Inl e), EvClose ?ns])"
            by (simp add: cmdAdd_inNetns_def call_defs)
          then have "cmdAdd w args =
             (Some e,
              [EvNewOVSSwitch (BrName n) (Inr br), EvAddPort br (PNIC n) None,
               EvGetNS (Netns args) None, EvNewResultFromResult (Inl e),
               EvClose \<lparr>ns_Path = Netns args\<rparr>])"
            by simp
          with load show ?thesis by (rule ResultFailed)
        next
          case (Inr r0)
          note result = this
          let ?t4 = "?t3 @ [EvNewResultFromResult (Inr r0)]"
          show ?thesis
          proof (cases rule: setupVeth_cases [of w ?t4 ?ns br "IfName args" "MTU n"])
            case (DoFailed e)
            with outer result have "cmdAdd w args =
               (Some e,
                [EvNewOVSSwitch (BrName n) (Inr br), EvAddPort br (PNIC n) None,
                 EvGetNS (Netns args) None, EvNewResultFromResult (Inr r0),
                 EvDo \<lparr>ns_Path = Netns args\<rparr> (Some e),
                 EvClose \<lparr>ns_Path = Netns args\<rparr>])"
              by (simp add: cmdAdd_inNetns_def NewResultFromResult_nil_def Let_def)
            with load show ?thesis by (rule EnterFailed)
          next
            case (SetupVethFailed e)
            with outer result have "cmdAdd w args =
               (Some e,
                [EvNewOVSSwitch (BrName n) (Inr br), EvAddPort br (PNIC n) None,
                 EvGetNS (Netns args) None, EvNewResultFromResult (Inr r0),
                 EvDo \<lparr>ns_Path = Netns args\<rparr> None,
                 EvSetupVeth (IfName args) (MTU n) (Inl e),
                 EvClose \<lparr>ns_Path = Netns args\<rparr>])"
              by (simp add: cmdAdd_inNetns_def NewResultFromResult_nil_def Let_def)
            with load show ?thesis by (rule VethFailed)
          next
            case (AddPortFailed hv cv e)
            with outer result have "cmdAdd w args =
               (Some (FailedToConnect (net_Name hv) (bridgeName br) e),
                [EvNewOVSSwitch (BrName n) (Inr br), EvAddPort br (PNIC n) None,
                 EvGetNS (Netns args) None, EvNewResultFromResult (Inr r0),
                 EvDo \<lparr>ns_Path = Netns args\<rparr> None,
                 EvSetupVeth (IfName args) (MTU n) (Inr (hv, cv)),
                 EvAddPort br (net_Name cv) (Some e),
                 EvClose \<lparr>ns_Path = Netns args\<rparr>])"
              by (simp add: cmdAdd_inNetns_def NewResultFromResult_nil_def Let_def)
            with load show ?thesis by (rule AttachFailed)
          next
            case (Connected hv cv)
            note veth = this
            let ?t5 = "?t4 @ [EvDo ?ns None, EvSetupVeth (IfName args) (MTU n) (Inr (hv, cv)),
                 EvAddPort br (net_Name cv) None]"
            show ?thesis
            proof (cases rule: lookup_cases [of w ?ns "IfName args" ?t5])
              case (DoFailed e)
              with outer result veth have "cmdAdd w args =
                 (Some e,
                  [EvNewOVSSwitch (BrName n) (Inr br), EvAddPort br (PNIC n) None,
                   EvGetNS (Netns args) None, EvNewResultFromResult (Inr r0),
                   EvDo \<lparr>ns_Path = Netns args\<rparr> None,
                   EvSetupVeth (IfName args) (MTU n) (Inr (hv, cv)),
                   EvAddPort br (net_Name cv) None,
                   EvDo \<lparr>ns_Path = Netns args\<rparr> (Some e),
                   EvClose \<lparr>ns_Path = Netns args\<rparr>])"
                by (simp add: cmdAdd_inNetns_def NewResultFromResult_nil_def Let_def)
              with load show ?thesis by (rule ReenterFailed)
            next
              case (NotFound e)
              with outer result veth have "cmdAdd w args =
                 (Some e,
                  [EvNewOVSSwitch (BrName n) (Inr br), EvAddPort br (PNIC n) None,
                   EvGetNS (Netns args) None, EvNewResultFromResult (Inr r0),
                   EvDo \<lparr>ns_Path = Netns args\<rparr> None,
                   EvSetupVeth (IfName args) (MTU n) (Inr (hv, cv)),
                   EvAddPort br (net_Name cv) None,
                   EvDo \<lparr>ns_Path = Netns args\<rparr> None,
                   EvInterfaceByName (IfName args) (Inl e),
                   EvClose \<lparr>ns_Path = Netns args\<rparr>])"
                by (simp add: cmdAdd_inNetns_def NewResultFromResult_nil_def Let_def)
              with load show ?thesis by (rule LookupFailed)
            next
              case (Found ci)
              let ?r = "r0\<lparr>Interfaces :=
                   [\<lparr>Name = BrName n, Mac = [], Sandbox = []\<rparr>,
                    \<lparr>Name = net_Name hv, Mac = [], Sandbox = []\<rparr>,
                    \<lparr>Name = net_Name cv, Mac = HardwareAddr_String (net_HardwareAddr cv),
                       Sandbox = Netns args\<rparr>]\<rparr>"
              let ?t6 = "?t5 @ [EvDo ?ns None, EvInterfaceByName (IfName args) (Inr ci)]"
              from outer result veth Found have "cmdAdd w args =
                 (PrintResult_answer w ?t6 ?r v,
                  [EvNewOVSSwitch (BrName n) (Inr br), EvAddPort br (PNIC n) None,
                   EvGetNS (Netns args) None, EvNewResultFromResult (Inr r0),
                   EvDo \<lparr>ns_Path = Netns args\<rparr> None,
                   EvSetupVeth (IfName args) (MTU n) (Inr (hv, cv)),
                   EvAddPort br (net_Name cv) None,
                   EvDo \<lparr>ns_Path = Netns args\<rparr> None,
                   EvInterfaceByName (IfName args) (Inr ci),
                   EvPrintResult ?r v (PrintResult_answer w ?t6 ?r v),
                   EvClose \<lparr>ns_Path = Netns args\<rparr>])"
                by (simp add: cmdAdd_inNetns_def NewResultFromResult_nil_def PrintResult_def Let_def)
              with load show ?thesis by (rule Printed)
            qed
          qed
        qed
      qed
    qed
  qed
qed

section \<open>Example runs\<close>

text \<open>The example requests, run in the example worlds.\<close>

lemmas example_defs = world_ok_def world_attach_fails_def world_uplink_fails_def
  world_switch_fails_def args_ok_def args_no_netns_def args_malformed_def example_parse_def
  example_conf_def conf_without_bridge_def conf_custom_bridge_def conf_empty_bridge_def
  conf_malformed_def host_veth_def cont_veth_def

lemmas plugin_defs = cmdAdd_def cmdAdd_inNetns_def setupBridge_def setupVeth_def
  loadNetConf_def Unmarshal_def decodeMember_def lowerASCII_def defaultBrName_def hexDigit_def

lemma load_example:
  "loadNetConf world_ok example_conf =
     Inr (\<lparr>CNIVersion = ''0.3.1'', BrName = ''ovsbr0'', MTU = 1500, PNIC = ''eth1''\<rparr>, ''0.3.1'')"
  "loadNetConf world_attach_fails example_conf =
     Inr (\<lparr>CNIVersion = ''0.3.1'', BrName = ''ovsbr0'', MTU = 1500, PNIC = ''eth1''\<rparr>, ''0.3.1'')"
  "loadNetConf world_uplink_fails example_conf =
     Inr (\<lparr>CNIVersion = ''0.3.1'', BrName = ''ovsbr0'', MTU = 1500, PNIC = ''eth1''\<rparr>, ''0.3.1'')"
  "loadNetConf world_switch_fails example_conf =
     Inr (\<lparr>CNIVersion = ''0.3.1'', BrName = ''ovsbr0'', MTU = 1500, PNIC = ''eth1''\<rparr>, ''0.3.1'')"
  by (simp_all add: example_defs plugin_defs call_defs)

lemma run_ok:
  "cmdAdd world_ok args_ok =
     (None,
      [EvNewOVSSwitch ''ovsbr0'' (Inr \<lparr>bridgeName = ''ovsbr0''\<rparr>),
       EvAddPort \<lparr>bridgeName = ''ovsbr0''\<rparr> ''eth1'' None,
       EvGetNS ''/proc/1234/ns/net'' None,
       EvNewResultFromResult
         (Inr \<lparr>result_CNIVersion = ''0.3.1'', Interfaces = [], IPs = [], Routes = []\<rparr>),
       EvDo \<lparr>ns_Path = ''/proc/1234/ns/net''\<rparr> None,
       EvSetupVeth ''eth0'' 1500 (Inr (host_veth, cont_veth)),
       EvAddPort \<lparr>bridgeName = ''ovsbr0''\<rparr> ''eth0'' None,
       EvDo \<lparr>ns_Path = ''/proc/1234/ns/net''\<rparr> None,
       EvInterfaceByName ''eth0'' (Inr cont_veth),
       EvPrintResult
         \<lparr>result_CNIVersion = ''0.3.1'',
          Interfaces =
            [\<lparr>Name = ''ovsbr0'', Mac = [], Sandbox = []\<rparr>,
             \<lparr>Name = ''veth1a2b3c4d'', Mac = [], Sandbox = []\<rparr>,
             \<lparr>Name = ''eth0'', Mac = ''0a:58:00:01:02:ff'', Sandbox = ''/proc/1234/ns/net''\<rparr>],
          IPs = [], Routes = []\<rparr>
         ''0.3.1'' None,
       EvClose \<lparr>ns_Path = ''/proc/1234/ns/net''\<rparr>])"
  by (simp add: example_defs plugin_defs call_defs)


lemma run_uplink_fails:
  "cmdAdd world_uplink_fails args_ok =
     (Some (LibError ''no such device''),
      [EvNewOVSSwitch ''ovsbr0'' (Inr \<lparr>bridgeName = ''ovsbr0''\<rparr>),
       EvAddPort \<lparr>bridgeName = ''ovsbr0''\<rparr> ''eth1'' (Some (LibError ''no such device''))])"
  by (simp add: example_defs plugin_defs call_defs)

lemma run_switch_fails:
  "cmdAdd world_switch_fails args_ok =
     (Some (FailedToCreateBridge ''ovsbr0'' (LibError ''ovsdb unreachable'')),
      [EvNewOVSSwitch ''ovsbr0'' (Inl (LibError ''ovsdb unreachable''))])"
  by (simp add: example_defs plugin_defs call_defs)

lemma cmdDel_runs:
  "cmdDel world_ok args_ok = (None, [])"
  "cmdDel world_ok args_no_netns = (None, [])"
  "cmdDel world_ok args_malformed =
     (Some (FailedToLoadNetconf (LibError ''unexpected end of JSON input'')), [])"
  by (simp_all add: cmdDel_def example_defs plugin_defs)

lemma args_Netns:
  "Netns args_ok = ''/proc/1234/ns/net''" "Netns args_no_netns = []" "Netns args_malformed = []"
  by (simp_all add: args_ok_def args_no_netns_def args_malformed_def)

lemma load_other_examples:
  "loadNetConf world_ok conf_without_bridge =
     Inr (\<lparr>CNIVersion = ''0.3.1'', BrName = ''ovsbr0'', MTU = 1500, PNIC = ''eth1''\<rparr>, ''0.3.1'')"
  "loadNetConf world_ok conf_custom_bridge =
     Inr (\<lparr>CNIVersion = [], BrName = ''br-int'', MTU = 0, PNIC = ''eth1''\<rparr>, [])"
  "loadNetConf world_ok conf_empty_bridge =
     Inr (\<lparr>CNIVersion = [], BrName = [], MTU = 0, PNIC = ''eth1''\<rparr>, [])"
  by (simp_all add: example_defs plugin_defs call_defs)

lemma parse_examples:
  "parse_json world_ok example_conf =
     Inr (JObject [(''cniVersion'', JString ''0.3.1''), (''bridge'', JString ''ovsbr0''),
                   (''mtu'', JNumber 1500), (''pNIC'', JString ''eth1'')])"
  "parse_json world_ok conf_without_bridge =
     Inr (JObject [(''cniVersion'', JString ''0.3.1''), (''mtu'', JNumber 1500),
                   (''pNIC'', JString ''eth1'')])"
  "parse_json world_ok conf_custom_bridge =
     Inr (JObject [(''Bridge'', JString ''br-int''), (''pNIC'', JString ''eth1'')])"
  "parse_json world_ok conf_empty_bridge =
     Inr (JObject [(''bridge'', JString []), (''pNIC'', JString ''eth1'')])"
  by (simp_all add: example_defs)

section \<open>The bridge name of a loaded configuration\<close>

text \<open>
  Decoding an object changes \<open>BrName\<close> exactly at the members that give a bridge name, so
  the field ends as the last name given, or as it started.
\<close>

lemma decodeMember_BrName:
  "BrName (fst (decodeMember w kv acc)) = last (BrName (fst acc) # bridge_names [kv])"
proof (cases kv)
  case (Pair k v)
  then show ?thesis
    by (cases v) (simp_all add: decodeMember_def Let_def split: sum.splits option.splits)
qed

lemma bridge_names_Cons: "bridge_names (kv # kvs) = bridge_names [kv] @ bridge_names kvs"
proof (cases kv)
  case (Pair k v)
  then show ?thesis by (cases v) simp_all
qed

lemma decodeObject_BrName:
  "BrName (fst (decodeObject w kvs acc)) = last (BrName (fst acc) # bridge_names kvs)"
proof (induction kvs arbitrary: acc)
  case Nil
  show ?case by simp
next
  case (Cons kv kvs)
  have "BrName (fst (decodeObject w (kv # kvs) acc)) =
          last (last (BrName (fst acc) # bridge_names [kv]) # bridge_names kvs)"
    by (simp add: Cons.IH decodeMember_BrName)
  also have "\<dots> = last (BrName (fst acc) # bridge_names [kv] @ bridge_names kvs)"
    by (cases "bridge_names kvs") simp_all
  finally show ?case
    by (simp only: bridge_names_Cons [of kv kvs])
qed

lemma loadNetConf_BrName:
  assumes "loadNetConf w bytes = Inr (n, v)"
    and "parse_json w bytes = Inr doc"
  shows "BrName n = (case supplied_bridge doc of None \<Rightarrow> defaultBrName | Some s \<Rightarrow> s)"
proof (cases doc)
  case (JObject kvs)
  with assms have "n = fst (decodeObject w kvs (\<lparr>CNIVersion = [], BrName = defaultBrName, MTU = 0, PNIC = []\<rparr>, None))"
    by (auto simp: loadNetConf_def Unmarshal_def Let_def split: prod.splits option.splits)
  then show ?thesis
    using JObject by (simp add: decodeObject_BrName)
qed (use assms in \<open>auto simp: loadNetConf_def Unmarshal_def Let_def split: prod.splits option.splits\<close>)

section \<open>Failure of the host-port attach\<close>




section \<open>The port attached after the veth pair is created\<close>


section \<open>Teardown\<close>

text \<open>
  Claim C3, as the spec states it: a teardown whose namespace path is not empty detaches
  (del-port) the host counterpart of the container's veth from the switch before it
  returns. The run below refutes it: the namespace path is not empty, the teardown
  succeeds, and its trace is empty, so no del-port was issued.
\<close>

theorem C3_counterexample:
  "Netns args_ok \<noteq> [] \<and>
   cmdDel world_ok args_ok = (None, []) \<and>
   filter is_DelPort (snd (cmdDel world_ok args_ok)) = []"
  by (simp add: cmdDel_runs args_Netns)

text \<open>
  Claim C3, amended: a teardown whose namespace path is not empty calls no collaborator
  at all (in particular it issues no del-port); it returns the error of the configuration
  loader when loading fails and succeeds otherwise.
\<close>

theorem C3_teardown_detaches_nothing:
  assumes "Netns args \<noteq> []"
  shows "snd (cmdDel w args) = [] \<and>
         fst (cmdDel w args) =
           (case loadNetConf w (StdinData args) of Inl e \<Rightarrow> Some e | Inr nv \<Rightarrow> None)"
  using assms by (simp add: cmdDel_def split: sum.splits prod.splits)

text \<open>The teardown of the example request: its namespace path is not empty.\<close>

theorem C3_teardown_detaches_nothing_witness:
  "Netns args_ok \<noteq> [] \<and> snd (cmdDel world_ok args_ok) = [] \<and> fst (cmdDel world_ok args_ok) = None"
proof -
  have ne: "Netns args_ok \<noteq> []" by (simp add: args_Netns)
  from C3_teardown_detaches_nothing [OF ne, of world_ok] ne
  show ?thesis by (simp add: args_ok_def load_example)
qed




section \<open>The result of a successful attachment\<close>





section \<open>Order of the steps\<close>

text \<open>
  Claim C6: in every attachment the uplink is attached to the switch strictly before the
  namespace is opened: whenever a run reaches the opening of the namespace, the events
  before it are the creation of the switch and the successful add-port of the configured
  uplink. When the creation of the switch or the attach of the uplink fails, the run
  returns an error, never tries to open the namespace and never calls the veth factory.
\<close>

theorem C6_uplink_before_namespace:
  assumes "cmdAdd w args = (r, tr)"
  shows "(\<forall>pre. before_netns_open tr = Some pre \<longrightarrow>
            (\<exists>n v br. loadNetConf w (StdinData args) = Inr (n, v) \<and>
                      pre = [EvNewOVSSwitch (BrName n) (Inr br), EvAddPort br (PNIC n) None])) \<and>
         (switch_creation_failed tr \<or> uplink_attach_failed tr \<longrightarrow>
            r \<noteq> None \<and> before_netns_open tr = None \<and> filter is_SetupVeth tr = [])"
  using assms
  by (cases rule: cmdAdd_cases [of w args]) (auto simp: uplink_attach_failed_def)

text \<open>
  The successful run reaches the namespace after the uplink; the runs in which the uplink
  is refused or the switch cannot be created never reach it.
\<close>

theorem C6_uplink_before_namespace_witness:
  "before_netns_open (snd (cmdAdd world_ok args_ok)) =
     Some [EvNewOVSSwitch ''ovsbr0'' (Inr \<lparr>bridgeName = ''ovsbr0''\<rparr>),
           EvAddPort \<lparr>bridgeName = ''ovsbr0''\<rparr> ''eth1'' None] \<and>
   uplink_attach_failed (snd (cmdAdd world_uplink_fails args_ok)) \<and>
   before_netns_open (snd (cmdAdd world_uplink_fails args_ok)) = None \<and>
   filter is_SetupVeth (snd (cmdAdd world_uplink_fails args_ok)) = [] \<and>
   switch_creation_failed (snd (cmdAdd world_switch_fails args_ok)) \<and>
   before_netns_open (snd (cmdAdd world_switch_fails args_ok)) = None \<and>
   filter is_SetupVeth (snd (cmdAdd world_switch_fails args_ok)) = []"
proof -
  have a: "before_netns_open (snd (cmdAdd world_ok args_ok)) =
     Some [EvNewOVSSwitch ''ovsbr0'' (Inr \<lparr>bridgeName = ''ovsbr0''\<rparr>),
           EvAddPort \<lparr>bridgeName = ''ovsbr0''\<rparr> ''eth1'' None]"
    by (simp add: run_ok)
  have b: "uplink_attach_failed (snd (cmdAdd world_uplink_fails args_ok))"
    by (simp add: run_uplink_fails uplink_attach_failed_def)
  have c: "switch_creation_failed (snd (cmdAdd world_switch_fails args_ok))"
    by (simp add: run_switch_fails)
  have run1: "cmdAdd world_ok args_ok = (fst (cmdAdd world_ok args_ok), snd (cmdAdd world_ok args_ok))"
    by simp
  have run2: "cmdAdd world_uplink_fails args_ok =
      (fst (cmdAdd world_uplink_fails args_ok), snd (cmdAdd world_uplink_fails args_ok))"
    by simp
  have run3: "cmdAdd world_switch_fails args_ok =
      (fst (cmdAdd world_switch_fails args_ok), snd (cmdAdd world_switch_fails args_ok))"
    by simp
  from C6_uplink_before_namespace [OF run1] C6_uplink_before_namespace [OF run2]
    C6_uplink_before_namespace [OF run3] a b c
  show ?thesis by simp
qed



section \<open>The switch name\<close>

text \<open>
  Claim C8: when the configuration supplies no bridge name, the switch name of the loaded
  configuration is the default \<open>ovsbr0\<close>; when it supplies one, that name is the switch
  name.
\<close>

theorem C8_bridge_name_default_or_supplied:
  assumes "loadNetConf w bytes = Inr (n, v)"
    and "parse_json w bytes = Inr doc"
  shows "(supplied_bridge doc = None \<longrightarrow> BrName n = ''ovsbr0'') \<and>
         (\<forall>s. supplied_bridge doc = Some s \<longrightarrow> BrName n = s)"
  using loadNetConf_BrName [OF assms] by (auto simp: defaultBrName_def)

text \<open>A configuration without a bridge name, and one that names the bridge \<open>br-int\<close>.\<close>

theorem C8_bridge_name_default_or_supplied_witness:
  "supplied_bridge (JObject [(''cniVersion'', JString ''0.3.1''), (''mtu'', JNumber 1500),
                             (''pNIC'', JString ''eth1'')]) = None \<and>
   BrName (fst (projr (loadNetConf world_ok conf_without_bridge))) = ''ovsbr0'' \<and>
   supplied_bridge (JObject [(''Bridge'', JString ''br-int''), (''pNIC'', JString ''eth1'')]) =
     Some ''br-int'' \<and>
   BrName (fst (projr (loadNetConf world_ok conf_custom_bridge))) = ''br-int''"
proof -
  have a: "supplied_bridge (JObject [(''cniVersion'', JString ''0.3.1''), (''mtu'', JNumber 1500),
                             (''pNIC'', JString ''eth1'')]) = None"
    by (simp add: lowerASCII_def)
  have b: "supplied_bridge (JObject [(''Bridge'', JString ''br-int''), (''pNIC'', JString ''eth1'')]) =
     Some ''br-int''"
    by (simp add: lowerASCII_def)
  from C8_bridge_name_default_or_supplied [OF load_other_examples(1) parse_examples(2)]
    C8_bridge_name_default_or_supplied [OF load_other_examples(2) parse_examples(3)] a b
  show ?thesis by (simp add: load_other_examples)
qed

text \<open>
  Claim C9, as the spec states it: the switch name of an accepted configuration is never
  empty. The configuration below supplies the empty string as the bridge name; it is
  accepted, with an empty switch name.
\<close>

theorem C9_counterexample:
  "loadNetConf world_ok conf_empty_bridge =
     Inr (\<lparr>CNIVersion = [], BrName = [], MTU = 0, PNIC = ''eth1''\<rparr>, [])"
  by (rule load_other_examples(3))

text \<open>
  Claim C9, amended: the switch name of an accepted configuration is empty exactly when
  the configuration itself supplies the empty string as the bridge name; in every other
  accepted configuration it is not empty.
\<close>

theorem C9_bridge_name_empty_only_if_supplied_empty:
  assumes "loadNetConf w bytes = Inr (n, v)"
    and "parse_json w bytes = Inr doc"
  shows "(BrName n = []) = (supplied_bridge doc = Some [])"
  using loadNetConf_BrName [OF assms] by (auto simp: defaultBrName_def split: option.splits)

text \<open>A configuration without a bridge name, and the configuration with the empty bridge name.\<close>

theorem C9_bridge_name_empty_only_if_supplied_empty_witness:
  "BrName (fst (projr (loadNetConf world_ok conf_without_bridge))) \<noteq> [] \<and>
   supplied_bridge (JObject [(''cniVersion'', JString ''0.3.1''), (''mtu'', JNumber 1500),
                             (''pNIC'', JString ''eth1'')]) \<noteq> Some [] \<and>
   BrName (fst (projr (loadNetConf world_ok conf_empty_bridge))) = [] \<and>
   supplied_bridge (JObject [(''bridge'', JString []), (''pNIC'', JString ''eth1'')]) = Some []"
  using C9_bridge_name_empty_only_if_supplied_empty [OF load_other_examples(1) parse_examples(2)]
    C9_bridge_name_empty_only_if_supplied_empty [OF load_other_examples(3) parse_examples(4)]
  by (simp add: load_other_examples)

end
